theory Spec2Isabelle
  imports Complex_Main "HOL-Library.Word"
begin

unbundle bit_operations_syntax

section \<open>Conventions\<close>

text \<open>
  The development embeds the parts of the parser microservice that its specification
  speaks about: the document analyzer of \<^verbatim>\<open>src/services/parser.js\<close> (class
  \<^verbatim>\<open>AIParserV3\<close>), the job processor and the start-up code of
  \<^verbatim>\<open>src/worker.js\<close>, and the start-up code and the result route of
  \<^verbatim>\<open>src/server.js\<close>.

  JavaScript numbers are IEEE doubles. They are modelled here as exact reals: the
  constants of the code (\<open>0.3\<close>, \<open>0.98\<close>, \<open>25.4\<close>, ...) denote the decimal
  fractions they are written as, and \<open>+\<close>, \<open>*\<close>, \<open>/\<close> are exact. Counts and pixel
  coordinates are integers. Strings are byte strings; \<^verbatim>\<open>toLowerCase\<close> is modelled
  on the ASCII letters.

  Calls that leave the process (file system, Redis, the queue library, external render
  tools) are not executed by a model. Their outcomes are inputs of the embedding, one
  field of an environment record for every call whose outcome the code inspects, and a
  call that can throw has an outcome of type \<open>error + 'a\<close>.
\<close>

datatype error = Error string

section \<open>Strings and paths\<close>

text \<open>
  The string operations of JavaScript and of Node's \<^verbatim>\<open>path\<close> module that the
  analyzer uses. \<open>strIncludes s k\<close> is \<^verbatim>\<open>s.includes(k)\<close>.
\<close>

definition toLowerChar :: "char \<Rightarrow> char" where
  "toLowerChar c =
     (case map_of (zip ''ABCDEFGHIJKLMNOPQRSTUVWXYZ'' ''abcdefghijklmnopqrstuvwxyz'') c of
        Some l \<Rightarrow> l
      | None \<Rightarrow> c)"

definition toLowerCase :: "string \<Rightarrow> string" where
  "toLowerCase s = map toLowerChar s"

fun startsWith :: "string \<Rightarrow> string \<Rightarrow> bool" where
  "startsWith s [] = True"
| "startsWith [] (k # ks) = False"
| "startsWith (c # cs) (k # ks) = (c = k \<and> startsWith cs ks)"

fun strIncludes :: "string \<Rightarrow> string \<Rightarrow> bool" where
  "strIncludes [] k = (k = [])"
| "strIncludes (c # cs) k = (startsWith (c # cs) k \<or> strIncludes cs k)"

definition isSpace :: "char \<Rightarrow> bool" where
  "isSpace c = (c \<in> set [CHR '' '', CHR 0x09, CHR 0x0A, CHR 0x0B, CHR 0x0C, CHR 0x0D])"

definition trim :: "string \<Rightarrow> string" where
  "trim s = rev (dropWhile isSpace (rev (dropWhile isSpace s)))"

fun splitOn :: "char \<Rightarrow> string \<Rightarrow> string list" where
  "splitOn d [] = [[]]"
| "splitOn d (c # cs) =
     (if c = d then [] # splitOn d cs
      else (case splitOn d cs of
              [] \<Rightarrow> [[c]]
            | w # ws \<Rightarrow> (c # w) # ws))"

text \<open>
  \<^verbatim>\<open>path.basename\<close> ignores trailing separators and returns the last component;
  \<^verbatim>\<open>path.join\<close> is used by the analyzer only to put a file name under a directory.
\<close>

definition basename :: "string \<Rightarrow> string" where
  "basename p =
     (let q = dropWhile (\<lambda>c. c = CHR ''/'') (rev p)
      in rev (takeWhile (\<lambda>c. c \<noteq> CHR ''/'') q))"

definition pathJoin :: "string \<Rightarrow> string \<Rightarrow> string" where
  "pathJoin dir file = dir @ ''/'' @ file"

definition digitChar :: "nat \<Rightarrow> char" where
  "digitChar d = ''0123456789'' ! d"

fun showNat :: "nat \<Rightarrow> string" where
  "showNat n = (if n < 10 then [digitChar n] else showNat (n div 10) @ [digitChar (n mod 10)])"

declare showNat.simps [simp del]

text \<open>The replacement \<^verbatim>\<open>layerName.replace(/[^a-zA-Z0-9_-]/g, '_')\<close>.\<close>

definition sanitizeChar :: "char \<Rightarrow> char" where
  "sanitizeChar c =
     (if c \<in> set ''abcdefghijklmnopqrstuvwxyzABCDEFGHIJKLMNOPQRSTUVWXYZ0123456789_-''
      then c else CHR ''_'')"

definition sanitize :: "string \<Rightarrow> string" where
  "sanitize s = map sanitizeChar s"

section \<open>Analyzer: data\<close>

datatype effectType = foil | spotUV | emboss | diecut | edge

fun effectTypeName :: "effectType \<Rightarrow> string" where
  "effectTypeName foil = ''foil''"
| "effectTypeName spotUV = ''spotUV''"
| "effectTypeName emboss = ''emboss''"
| "effectTypeName diecut = ''diecut''"
| "effectTypeName edge = ''edge''"

datatype side = Front | Back

text \<open>A bounding box \<^verbatim>\<open>{ x, y, width, height }\<close>, in millimetres.\<close>

record box =
  box_x :: real
  box_y :: real
  box_width :: real
  box_height :: real

definition zeroBox :: box where
  "zeroBox = \<lparr>box_x = 0, box_y = 0, box_width = 0, box_height = 0\<rparr>"

text \<open>
  The objects pushed onto \<^verbatim>\<open>layers\<close> by \<^verbatim>\<open>extractOCGLayers\<close> and by
  \<^verbatim>\<open>fallbackLayerExtraction\<close> have exactly these fields; the field \<^verbatim>\<open>type\<close> is the
  constant \<^verbatim>\<open>'effect'\<close> in both.
\<close>

record layer =
  layer_id :: string
  layer_name :: string
  layer_type :: string
  layer_effectType :: effectType
  layer_effectSubtype :: string
  layer_side :: side
  layer_maskFile :: string
  layer_bounds :: box
  layer_confidence :: real

text \<open>The decoded image returned by \<^verbatim>\<open>PNG.sync.read\<close>: RGBA bytes, row by row.\<close>

record png =
  png_width :: nat
  png_height :: nat
  png_data :: "8 word list"

text \<open>The parser object: \<^verbatim>\<open>this.dpi\<close> and \<^verbatim>\<open>this.enableOCG\<close>.\<close>

record parser =
  dpi :: real
  enableOCG :: bool

record parserOptions =
  opt_dpi :: "real option"
  opt_enableOCG :: "bool option"

text \<open>
  The constructor: \<^verbatim>\<open>options.dpi || 600\<close> replaces a missing or zero resolution, and
  \<^verbatim>\<open>options.enableOCG !== false\<close> is true unless the option is the value false.
\<close>

definition newParser :: "parserOptions \<Rightarrow> parser" where
  "newParser options =
     \<lparr>dpi = (case opt_dpi options of
               None \<Rightarrow> 600
             | Some d \<Rightarrow> if d = 0 then 600 else d),
      enableOCG = (opt_enableOCG options \<noteq> Some False)\<rparr>"

text \<open>
  The outcomes of the analyzer's calls to the outside, for one call of the analyzer:
  \<^item> \<open>ocPropsRef\<close>: the value of the catalog lookup at the head of
    \<^verbatim>\<open>extractOCGLayers\<close>, as a truth value, or the exception it threw (what the
    lookup gives on a document loaded by the PDF library is computed further below);
  \<^item> \<open>stringsGrep\<close>: the output of the shell pipeline of \<^verbatim>\<open>extractLayerNames\<close> for a
    file, or the exception of \<^verbatim>\<open>execSync\<close>;
  \<^item> \<open>regexCapture k line\<close>: the first capture group of the \<open>k\<close>-th pattern of
    \<^verbatim>\<open>extractLayerNames\<close> on a line, when the pattern matches and the group is non-empty;
  \<^item> \<open>advancedExecOk\<close>, \<open>advancedSize\<close>: whether the \<^verbatim>\<open>pdftocairo -transp\<close> call for an
    output path returned, and the size of the output file afterwards (\<open>None\<close> when it
    does not exist);
  \<^item> \<open>fullPageExecOk\<close>, \<open>fullPageExists\<close>: the same for the full-page render;
  \<^item> \<open>readFile\<close>, \<open>pngRead\<close>: reading a mask file and decoding it;
  \<^item> \<open>sharpCreateOk\<close>: whether writing a placeholder mask to a path succeeded.
\<close>

record env =
  ocPropsRef :: "error + bool"
  stringsGrep :: "string \<Rightarrow> error + string"
  regexCapture :: "nat \<Rightarrow> string \<Rightarrow> string option"
  advancedExecOk :: "string \<Rightarrow> bool"
  advancedSize :: "string \<Rightarrow> nat option"
  fullPageExecOk :: "string \<Rightarrow> bool"
  fullPageExists :: "string \<Rightarrow> bool"
  readFile :: "string \<Rightarrow> error + 8 word list"
  pngRead :: "8 word list \<Rightarrow> error + png"
  sharpCreateOk :: "string \<Rightarrow> bool"

section \<open>Analyzer: classification of names\<close>

text \<open>
  \<^verbatim>\<open>detectEffectLayer\<close>, lines 621-682. The table \<open>patterns\<close> is the object literal of
  the source in its own order, which is the order \<^verbatim>\<open>Object.entries\<close> visits.
\<close>

record effectInfo =
  info_type :: effectType
  info_subtype :: string
  info_side :: side

definition patterns :: "(effectType \<times> string list \<times> (string \<times> string list) list) list" where
  "patterns =
     [(foil, [''foil'', ''hot'', ''metallic'', ''gold'', ''silver'', ''copper'', ''rose'', ''holo''],
         [(''gold'', [''gold'', ''golden'', ''yellow'']),
          (''silver'', [''silver'', ''chrome'', ''metallic'', ''white'']),
          (''copper'', [''copper'', ''bronze'', ''brown'']),
          (''rose_gold'', [''rose'', ''pink'', ''rosegold'']),
          (''holographic'', [''holo'', ''rainbow'', ''prismatic''])]),
      (spotUV, [''uv'', ''spot'', ''gloss'', ''varnish'', ''coating'', ''clear''],
         [(''gloss'', [''gloss'', ''uv'', ''coating'', ''varnish''])]),
      (emboss, [''emboss'', ''raised'', ''deboss'', ''recessed'', ''relief'', ''pressed''],
         [(''raised'', [''emboss'', ''raised'', ''relief'']),
          (''recessed'', [''deboss'', ''recessed'', ''pressed''])]),
      (diecut, [''die'', ''cut'', ''cutting'', ''outline'', ''trim''],
         [(''through'', [''die'', ''cut'', ''cutting''])]),
      (edge, [''edge'', ''paint'', ''ink''],
         [(''painted'', [''paint'', ''ink'', ''color''])])]"

definition detectSubtype :: "string \<Rightarrow> (string \<times> string list) list \<Rightarrow> string" where
  "detectSubtype name subtypes =
     (case find (\<lambda>(sub, subKeywords). list_ex (strIncludes name) subKeywords) subtypes of
        None \<Rightarrow> ''default''
      | Some (sub, subKeywords) \<Rightarrow> sub)"

definition detectEffectLayer :: "string \<Rightarrow> effectInfo option" where
  "detectEffectLayer layerName =
     (let name = trim (toLowerCase layerName)
      in case find (\<lambda>(effectType, keywords, subtypes). list_ex (strIncludes name) keywords) patterns of
           None \<Rightarrow> None
         | Some (effectType, keywords, subtypes) \<Rightarrow>
             Some \<lparr>info_type = effectType,
                   info_subtype = detectSubtype name subtypes,
                   info_side = (if strIncludes name ''back'' \<or> strIncludes name ''rear''
                                then Back else Front)\<rparr>)"

text \<open>
  \<^verbatim>\<open>analyzeFilenameForEffects\<close> and \<^verbatim>\<open>extractSubtypeFromKeyword\<close>, lines 461-500. For
  every effect type the first keyword of its list that the file name contains gives one
  entry (the \<^verbatim>\<open>break\<close>); the subtype is looked up under that keyword, and the file name
  passed as second argument is not read.
\<close>

record effect =
  effect_type :: effectType
  effect_keyword :: string
  effect_subtype :: string

definition effectPatterns :: "(effectType \<times> string list) list" where
  "effectPatterns =
     [(foil, [''foil'', ''gold'', ''silver'', ''metallic'', ''hot'']),
      (spotUV, [''uv'', ''gloss'', ''varnish'', ''coating'']),
      (emboss, [''emboss'', ''raised'', ''deboss'']),
      (diecut, [''die'', ''cut'', ''cutting''])]"

definition subtypeMap :: "(string \<times> string) list" where
  "subtypeMap =
     [(''gold'', ''gold''), (''silver'', ''silver''), (''copper'', ''copper''),
      (''rose'', ''rose_gold''), (''uv'', ''gloss''), (''gloss'', ''gloss''),
      (''emboss'', ''raised''), (''deboss'', ''recessed'')]"

definition extractSubtypeFromKeyword :: "string \<Rightarrow> string \<Rightarrow> string" where
  "extractSubtypeFromKeyword keyword filename =
     (case map_of subtypeMap keyword of
        Some subtype \<Rightarrow> subtype
      | None \<Rightarrow> ''default'')"

definition effectOfType :: "string \<Rightarrow> effectType \<times> string list \<Rightarrow> effect list" where
  "effectOfType filename entry =
     (case find (\<lambda>keyword. strIncludes filename (toLowerCase keyword)) (snd entry) of
        None \<Rightarrow> []
      | Some keyword \<Rightarrow>
          [\<lparr>effect_type = fst entry, effect_keyword = keyword,
            effect_subtype = extractSubtypeFromKeyword keyword filename\<rparr>])"

definition analyzeFilenameForEffects :: "string \<Rightarrow> effect list" where
  "analyzeFilenameForEffects filename = concat (map (effectOfType filename) effectPatterns)"

section \<open>Analyzer: bounding box of a mask\<close>

text \<open>
  \<^verbatim>\<open>extractBoundsFromMask\<close>, lines 374-422. The two nested loops visit the pixels row
  by row. The index \<^verbatim>\<open>(png.width * y + x) << 2\<close> is a 32-bit signed shift; a read of
  \<^verbatim>\<open>png.data\<close> outside the buffer is \<^verbatim>\<open>undefined\<close>, which is not greater than 50.
\<close>

record scan =
  minX :: int
  minY :: int
  maxX :: int
  maxY :: int
  hasContent :: bool

definition pixelIndex :: "png \<Rightarrow> nat \<Rightarrow> nat \<Rightarrow> int" where
  "pixelIndex p x y = sint (push_bit 2 (word_of_nat (png_width p * y + x) :: 32 word))"

definition alphaAt :: "png \<Rightarrow> nat \<Rightarrow> nat \<Rightarrow> 8 word option" where
  "alphaAt p x y =
     (let i = pixelIndex p x y + 3
      in if 0 \<le> i \<and> i < int (length (png_data p)) then Some (png_data p ! nat i) else None)"

definition significant :: "png \<Rightarrow> nat \<Rightarrow> nat \<Rightarrow> bool" where
  "significant p x y = (case alphaAt p x y of None \<Rightarrow> False | Some alpha \<Rightarrow> unat alpha > 50)"

definition scanPixel :: "png \<Rightarrow> nat \<Rightarrow> nat \<Rightarrow> scan \<Rightarrow> scan" where
  "scanPixel p y x st =
     (if significant p x y
      then \<lparr>minX = min (minX st) (int x), minY = min (minY st) (int y),
            maxX = max (maxX st) (int x), maxY = max (maxY st) (int y),
            hasContent = True\<rparr>
      else st)"

definition scanRow :: "png \<Rightarrow> nat \<Rightarrow> scan \<Rightarrow> scan" where
  "scanRow p y st = fold (scanPixel p y) [0 ..< png_width p] st"

definition scanMask :: "png \<Rightarrow> scan" where
  "scanMask p =
     fold (scanRow p) [0 ..< png_height p]
       \<lparr>minX = int (png_width p), minY = int (png_height p), maxX = 0, maxY = 0,
        hasContent = False\<rparr>"

text \<open>\<^verbatim>\<open>Math.round\<close> rounds to the nearest integer, halves upwards.\<close>

definition mathRound :: "real \<Rightarrow> int" where
  "mathRound v = \<lfloor>v + 1 / 2\<rfloor>"

definition boundsOfScan :: "parser \<Rightarrow> scan \<Rightarrow> box" where
  "boundsOfScan this st =
     (let pxToMm = 25.4 / dpi this
      in \<lparr>box_x = of_int (mathRound (of_int (minX st) * pxToMm * 100)) / 100,
          box_y = of_int (mathRound (of_int (minY st) * pxToMm * 100)) / 100,
          box_width = of_int (mathRound (of_int (maxX st - minX st) * pxToMm * 100)) / 100,
          box_height = of_int (mathRound (of_int (maxY st - minY st) * pxToMm * 100)) / 100\<rparr>)"

text \<open>The body of the \<^verbatim>\<open>try\<close> block: it throws when the read or the decoding throws.\<close>

definition extractBoundsTry :: "parser \<Rightarrow> env \<Rightarrow> string \<Rightarrow> error + box" where
  "extractBoundsTry this e maskPath =
     (case readFile e maskPath of
        Inl err \<Rightarrow> Inl err
      | Inr pngBuffer \<Rightarrow>
          (case pngRead e pngBuffer of
             Inl err \<Rightarrow> Inl err
           | Inr p \<Rightarrow>
               (let st = scanMask p
                in if \<not> hasContent st then Inr zeroBox else Inr (boundsOfScan this st))))"

text \<open>The whole function: the \<^verbatim>\<open>catch\<close> clause returns the zero box.\<close>

definition extractBoundsFromMask :: "parser \<Rightarrow> env \<Rightarrow> string \<Rightarrow> error + box" where
  "extractBoundsFromMask this e maskPath =
     (case extractBoundsTry this e maskPath of
        Inl err \<Rightarrow> Inr zeroBox
      | Inr bounds \<Rightarrow> Inr bounds)"

text \<open>
  A mask without content, stated on the image data alone: no alpha byte (every fourth
  byte of the RGBA buffer) is above the cutoff 50.
\<close>

definition maskEmpty :: "png \<Rightarrow> bool" where
  "maskEmpty p =
     (\<forall>i \<in> {0 ..< length (png_data p)}. i mod 4 = 3 \<longrightarrow> unat (png_data p ! i) \<le> 50)"

section \<open>Analyzer: rendering a mask for a declared layer\<close>

text \<open>
  \<^verbatim>\<open>tryAdvancedOCGRendering\<close> (lines 278-310) succeeds when the render call returns and
  leaves an output file of more than 1000 bytes; \<^verbatim>\<open>tryFullPageRender\<close> (lines 312-334)
  succeeds when the call returns and the output file exists. Both catch every exception.
\<close>

definition tryAdvancedOCGRendering :: "env \<Rightarrow> string \<Rightarrow> bool" where
  "tryAdvancedOCGRendering e outputPath =
     (if advancedExecOk e outputPath
      then (case advancedSize e outputPath of
              None \<Rightarrow> False
            | Some bytes \<Rightarrow> bytes > 1000)
      else False)"

definition tryFullPageRender :: "env \<Rightarrow> string \<Rightarrow> bool" where
  "tryFullPageRender e outputPath =
     (if fullPageExecOk e outputPath then fullPageExists e outputPath else False)"

record maskResult =
  mr_maskPath :: string
  mr_confidence :: real

text \<open>
  \<^verbatim>\<open>renderLayerMask\<close>, lines 249-276: the primary method gives confidence 0.95, the
  full-page substitute 0.7, and \<^verbatim>\<open>null\<close> is returned when both fail.
  \<^verbatim>\<open>postProcessMask\<close> rewrites the file and catches its own exceptions; it has no
  part in the value returned.
\<close>

definition renderLayerMask :: "env \<Rightarrow> string \<Rightarrow> nat \<Rightarrow> string \<Rightarrow> maskResult option" where
  "renderLayerMask e layerName layerIndex assetsDir =
     (let sanitizedName = sanitize layerName;
          outputPath = pathJoin assetsDir (sanitizedName @ ''_'' @ showNat layerIndex @ ''.png'')
      in if tryAdvancedOCGRendering e outputPath
         then Some \<lparr>mr_maskPath = outputPath, mr_confidence = 0.95\<rparr>
         else if tryFullPageRender e outputPath
         then Some \<lparr>mr_maskPath = outputPath, mr_confidence = 0.7\<rparr>
         else None)"

section \<open>Analyzer: fallback classification from the file name\<close>

text \<open>\<^verbatim>\<open>generateDefaultBounds\<close>, lines 530-541.\<close>

definition generateDefaultBounds :: "nat \<Rightarrow> box" where
  "generateDefaultBounds index =
     (let baseX = 15 + (of_nat index * 5);
          baseY = 35
      in \<lparr>box_x = baseX, box_y = baseY, box_width = 25, box_height = 8\<rparr>)"

text \<open>
  \<^verbatim>\<open>generateFallbackMask\<close>, lines 502-528: the path of the placeholder, or \<^verbatim>\<open>null\<close>
  when writing it failed.
\<close>

definition generateFallbackMask :: "env \<Rightarrow> string \<Rightarrow> effect \<Rightarrow> nat \<Rightarrow> string option" where
  "generateFallbackMask e assetsDir eff index =
     (let maskPath = pathJoin assetsDir
            (''fallback_'' @ effectTypeName (effect_type eff) @ ''_'' @ showNat index @ ''.png'')
      in if sharpCreateOk e maskPath then Some maskPath else None)"

text \<open>
  \<^verbatim>\<open>fallbackLayerExtraction\<close>, lines 424-459. The loop runs over the effects found in
  the lower-cased base name of the file, with their indices.
\<close>

definition fallbackLayer :: "env \<Rightarrow> string \<Rightarrow> nat \<times> effect \<Rightarrow> layer list" where
  "fallbackLayer e assetsDir ie =
     (case generateFallbackMask e assetsDir (snd ie) (fst ie) of
        None \<Rightarrow> []
      | Some maskPath \<Rightarrow>
          [\<lparr>layer_id = ''fallback_'' @ showNat (fst ie),
            layer_name = effect_keyword (snd ie),
            layer_type = ''effect'',
            layer_effectType = effect_type (snd ie),
            layer_effectSubtype = effect_subtype (snd ie),
            layer_side = Front,
            layer_maskFile = basename maskPath,
            layer_bounds = generateDefaultBounds (fst ie),
            layer_confidence = 0.5\<rparr>])"

definition fallbackLayerExtraction :: "env \<Rightarrow> string \<Rightarrow> string \<Rightarrow> layer list" where
  "fallbackLayerExtraction e filePath assetsDir =
     (let filename = toLowerCase (basename filePath);
          defaultEffects = analyzeFilenameForEffects filename
      in concat (map (fallbackLayer e assetsDir) (enumerate 0 defaultEffects)))"

section \<open>Analyzer: declared layers\<close>

text \<open>
  \<^verbatim>\<open>extractLayerNames\<close>, lines 212-247. A failing pipeline gives the empty list. Every
  non-blank line is tried against the three patterns in order; a trimmed capture of more
  than 2 and fewer than 100 characters is added unless it is already in the list.
\<close>

definition addLayerName :: "env \<Rightarrow> string \<Rightarrow> nat \<Rightarrow> string list \<Rightarrow> string list" where
  "addLayerName e line k layerNames =
     (case regexCapture e k line of
        None \<Rightarrow> layerNames
      | Some m \<Rightarrow>
          (let layerName = trim m
           in if length layerName > 2 \<and> length layerName < 100 \<and> layerName \<notin> set layerNames
              then layerNames @ [layerName]
              else layerNames))"

definition addLayerNamesOfLine :: "env \<Rightarrow> string \<Rightarrow> string list \<Rightarrow> string list" where
  "addLayerNamesOfLine e line layerNames = fold (addLayerName e line) [0, 1, 2] layerNames"

definition extractLayerNames :: "env \<Rightarrow> string \<Rightarrow> string list" where
  "extractLayerNames e filePath =
     (case stringsGrep e filePath of
        Inl err \<Rightarrow> []
      | Inr output \<Rightarrow>
          (let lines = filter (\<lambda>line. length (trim line) > 0) (splitOn (CHR 0x0A) output)
           in fold (addLayerNamesOfLine e) lines []))"

text \<open>
  One round of the loop of \<^verbatim>\<open>extractOCGLayers\<close> (lines 167-201) for the name at index
  \<open>i\<close>: a name that is no effect is skipped, a name whose mask could not be rendered
  adds nothing, and an exception inside the inner \<^verbatim>\<open>try\<close> adds nothing.
\<close>

definition processLayerName :: "parser \<Rightarrow> env \<Rightarrow> string \<Rightarrow> nat \<times> string \<Rightarrow> layer list" where
  "processLayerName this e assetsDir il =
     (let i = fst il; layerName = snd il
      in case detectEffectLayer layerName of
           None \<Rightarrow> []
         | Some effectInfo \<Rightarrow>
             (case renderLayerMask e layerName i assetsDir of
                None \<Rightarrow> []
              | Some maskResult \<Rightarrow>
                  (case extractBoundsFromMask this e (mr_maskPath maskResult) of
                     Inl err \<Rightarrow> []
                   | Inr bounds \<Rightarrow>
                       [\<lparr>layer_id = ''layer_'' @ showNat i,
                         layer_name = layerName,
                         layer_type = ''effect'',
                         layer_effectType = info_type effectInfo,
                         layer_effectSubtype = info_subtype effectInfo,
                         layer_side = info_side effectInfo,
                         layer_maskFile = basename (mr_maskPath maskResult),
                         layer_bounds = bounds,
                         layer_confidence =
                           (if mr_confidence maskResult = 0 then 0.8
                            else mr_confidence maskResult)\<rparr>])))"

definition processLayerNames :: "parser \<Rightarrow> env \<Rightarrow> string \<Rightarrow> string list \<Rightarrow> layer list" where
  "processLayerNames this e assetsDir layerNames =
     concat (map (processLayerName this e assetsDir) (enumerate 0 layerNames))"

text \<open>
  \<^verbatim>\<open>extractOCGLayers\<close>, lines 146-210. The result records, beside the layers, which
  of the two ways produced them: \<open>ViaFallback\<close> when \<^verbatim>\<open>fallbackLayerExtraction\<close> was
  called (from the guard or from the outer \<^verbatim>\<open>catch\<close>), \<open>ViaOCG\<close> when the loop over
  the declared names ran.
\<close>

datatype extraction = ViaFallback | ViaOCG

definition extractOCGLayers :: "parser \<Rightarrow> env \<Rightarrow> string \<Rightarrow> string \<Rightarrow> extraction \<times> layer list" where
  "extractOCGLayers this e filePath assetsDir =
     (case ocPropsRef e of
        Inl err \<Rightarrow> (ViaFallback, fallbackLayerExtraction e filePath assetsDir)
      | Inr ocProps \<Rightarrow>
          if \<not> ocProps \<or> \<not> enableOCG this
          then (ViaFallback, fallbackLayerExtraction e filePath assetsDir)
          else (ViaOCG, processLayerNames this e assetsDir (extractLayerNames e filePath)))"

section \<open>Analyzer: the lookup of the optional-content properties\<close>

text \<open>
  The guard of \<^verbatim>\<open>extractOCGLayers\<close> tests the value of (lines 151-154)
  \<^verbatim>\<open>catalog.lookup(catalog.context.obj({ OCProperties: catalog.get('OCProperties') }))\<close>.
  The PDF library (pdf-lib) is not part of the sources; the three methods are modelled
  after the library's interface:
  \<^item> a dictionary keeps its entries under name objects, and \<^verbatim>\<open>PDFDict.get(key)\<close> finds an
    entry only when \<open>key\<close> is the name object of that entry: a JavaScript string or any
    other object finds nothing, and an entry holding the null object counts as absent;
  \<^item> \<^verbatim>\<open>PDFContext.obj(literal)\<close> turns a literal into a PDF object: \<^verbatim>\<open>undefined\<close> into
    the null object, a string into a name, an object literal into a new dictionary;
  \<^item> \<^verbatim>\<open>PDFDict.lookup(key)\<close> is \<^verbatim>\<open>get(key)\<close> followed by the dereferencing of an
    indirect reference.
  The value \<^verbatim>\<open>undefined\<close> is \<open>None\<close>.
\<close>

datatype pdfObject =
    PDFNull
  | PDFName string
  | PDFNumber int
  | PDFRef nat
  | PDFArray "pdfObject list"
  | PDFDict "(string \<times> pdfObject) list"

datatype jsValue =
    JsUndefined
  | JsString string
  | JsPdf pdfObject
  | JsObject "(string \<times> jsValue) list"

record pdfDocument =
  catalog :: "(string \<times> pdfObject) list"
  indirectObjects :: "(nat \<times> pdfObject) list"

definition dictGet :: "(string \<times> pdfObject) list \<Rightarrow> jsValue \<Rightarrow> pdfObject option" where
  "dictGet entries key =
     (case key of
        JsPdf (PDFName name) \<Rightarrow>
          (case map_of entries name of
             Some PDFNull \<Rightarrow> None
           | found \<Rightarrow> found)
      | other \<Rightarrow> None)"

primrec contextObj :: "jsValue \<Rightarrow> pdfObject" where
  "contextObj JsUndefined = PDFNull"
| "contextObj (JsString s) = PDFName s"
| "contextObj (JsPdf object) = object"
| "contextObj (JsObject members) = PDFDict (map (map_prod id contextObj) members)"

definition contextLookup :: "pdfDocument \<Rightarrow> pdfObject option \<Rightarrow> pdfObject option" where
  "contextLookup doc ref =
     (case ref of
        Some (PDFRef n) \<Rightarrow> map_of (indirectObjects doc) n
      | other \<Rightarrow> other)"

definition dictLookup ::
  "pdfDocument \<Rightarrow> (string \<times> pdfObject) list \<Rightarrow> jsValue \<Rightarrow> pdfObject option" where
  "dictLookup doc entries key =
     (case contextLookup doc (dictGet entries key) of
        Some PDFNull \<Rightarrow> None
      | found \<Rightarrow> found)"

definition jsOf :: "pdfObject option \<Rightarrow> jsValue" where
  "jsOf v = (case v of None \<Rightarrow> JsUndefined | Some object \<Rightarrow> JsPdf object)"

text \<open>
  The expression of the source: the inner \<^verbatim>\<open>get\<close> is called with the string
  \<^verbatim>\<open>'OCProperties'\<close>, and the dictionary built by \<^verbatim>\<open>obj\<close> is passed to \<^verbatim>\<open>lookup\<close> as
  the key.
\<close>

definition lookupOCProperties :: "pdfDocument \<Rightarrow> pdfObject option" where
  "lookupOCProperties doc =
     dictLookup doc (catalog doc)
       (JsPdf (contextObj
          (JsObject [(''OCProperties'',
                      jsOf (dictGet (catalog doc) (JsString ''OCProperties'')))])))"

text \<open>
  \<^verbatim>\<open>extractOCGLayers(pdfDoc, ...)\<close> on a document loaded by the library: the outcome of
  the lookup is the truth value of \<open>lookupOCProperties\<close>, and every other outcome is the
  one of the environment.
\<close>

definition extractOCGLayersOf ::
  "pdfDocument \<Rightarrow> parser \<Rightarrow> env \<Rightarrow> string \<Rightarrow> string \<Rightarrow> extraction \<times> layer list" where
  "extractOCGLayersOf pdfDoc this e filePath assetsDir =
     extractOCGLayers this (e\<lparr>ocPropsRef := Inr (lookupOCProperties pdfDoc \<noteq> None)\<rparr>)
       filePath assetsDir"

section \<open>Analyzer: overall confidence\<close>

text \<open>
  \<^verbatim>\<open>calculateConfidence(layerCount, mapCount)\<close>, \<^verbatim>\<open>parser.js\<close> lines 684-700. The
  two boosts are guarded by \<open>> 0\<close> tests, and the sum is capped at \<open>0.98\<close>.
\<close>

definition calculateConfidence :: "int \<Rightarrow> int \<Rightarrow> real" where
  "calculateConfidence layerCount mapCount =
     (let confidence = 0.3;
          confidence = (if layerCount > 0
                        then confidence + min 0.4 (of_int layerCount * 0.1)
                        else confidence);
          confidence = (if mapCount > 0
                        then confidence + min 0.3 (of_int mapCount * 0.05)
                        else confidence)
      in min 0.98 confidence)"

section \<open>Worker: processing one job\<close>

text \<open>
  The processor registered by \<^verbatim>\<open>parseQueue.process('parse', ...)\<close> in
  \<^verbatim>\<open>src/worker.js\<close>, lines 116-264, and \<^verbatim>\<open>parseWithProgressTracking\<close>, lines
  267-278. What the processor does to the outside is a list of events in the order of the
  source: every \<^verbatim>\<open>job.progress(n)\<close> is the event \<open>Progress n\<close>, every write of
  \<^verbatim>\<open>result.json\<close> in the job's directory an event \<open>WroteResult\<close>, and the write of
  \<^verbatim>\<open>error.json\<close> the event \<open>WroteErrorLog\<close>. The calls of \<^verbatim>\<open>job.progress\<close> are taken
  to return.

  \<^verbatim>\<open>parser.parseFile\<close> writes \<^verbatim>\<open>result.json\<close> as its last step before it returns the
  manifest (\<^verbatim>\<open>parser.js\<close>, line 98); the worker writes the file again after it has
  attached the \<^verbatim>\<open>quality\<close> and \<^verbatim>\<open>processing\<close> records (line 199). The manifest is a
  parameter \<open>'m\<close>; \<open>resultJson\<close> says which of the two versions a file holds.
\<close>

record 'm resultJson =
  manifest :: 'm
  processingAttached :: bool

datatype 'm event =
    Progress nat
  | WroteResult "'m resultJson"
  | WroteErrorLog

text \<open>
  The outcomes of the processor's calls, for one attempt: whether the uploaded file
  exists, whether \<^verbatim>\<open>fs.stat\<close> and \<^verbatim>\<open>fs.ensureDir\<close> return, what \<^verbatim>\<open>parser.parseFile\<close>
  returns or throws, and whether the two \<^verbatim>\<open>fs.writeJson\<close> calls return.
\<close>

record 'm jobEnv =
  fileExists :: bool
  statOk :: bool
  ensureDirOk :: bool
  parseFile :: "error + 'm"
  writeResultOk :: bool
  writeErrorLogOk :: bool

text \<open>The closure \<^verbatim>\<open>updateProgress(stage, baseProgress = 20)\<close>, lines 150-163.\<close>

definition progressMap :: "(string \<times> nat) list" where
  "progressMap =
     [(''loading'', 25), (''ocg_extraction'', 35), (''layer_detection'', 50),
      (''texture_generation'', 70), (''material_mapping'', 85), (''finalizing'', 95)]"

definition updateProgress :: "string \<Rightarrow> nat \<Rightarrow> 'm event" where
  "updateProgress stage baseProgress =
     (case map_of progressMap stage of
        None \<Rightarrow> Progress baseProgress
      | Some progress \<Rightarrow> Progress (if progress = 0 then baseProgress else progress))"

definition parseWithProgressTracking :: "'m jobEnv \<Rightarrow> 'm event list \<times> (error + 'm)" where
  "parseWithProgressTracking e =
     (case parseFile e of
        Inl err \<Rightarrow> ([updateProgress ''loading'' 20], Inl err)
      | Inr result \<Rightarrow>
          ([updateProgress ''loading'' 20,
            WroteResult \<lparr>manifest = result, processingAttached = False\<rparr>,
            updateProgress ''finalizing'' 20],
           Inr result))"

text \<open>The \<^verbatim>\<open>try\<close> block of the processor, lines 125-232.\<close>

definition processTry :: "'m jobEnv \<Rightarrow> 'm event list \<times> (error + 'm)" where
  "processTry e =
     (if \<not> fileExists e then ([Progress 5], Inl (Error ''File not found''))
      else if \<not> statOk e then ([Progress 5], Inl (Error ''stat failed''))
      else if \<not> ensureDirOk e then ([Progress 5, Progress 10], Inl (Error ''ensureDir failed''))
      else (case parseWithProgressTracking e of
              (evs, Inl err) \<Rightarrow> ([Progress 5, Progress 10, Progress 20] @ evs, Inl err)
            | (evs, Inr result) \<Rightarrow>
                (let before = [Progress 5, Progress 10, Progress 20] @ evs
                               @ [Progress 90, Progress 95, Progress 98]
                 in if \<not> writeResultOk e then (before, Inl (Error ''writeJson failed''))
                    else (before
                            @ [WroteResult \<lparr>manifest = result, processingAttached = True\<rparr>,
                               Progress 100],
                          Inr result))))"

text \<open>
  The whole processor: the \<^verbatim>\<open>catch\<close> block (lines 234-263) tries to write
  \<^verbatim>\<open>error.json\<close> and throws the error again.
\<close>

definition processJob :: "'m jobEnv \<Rightarrow> 'm event list \<times> (error + 'm)" where
  "processJob e =
     (case processTry e of
        (evs, Inl err) \<Rightarrow> (if writeErrorLogOk e then evs @ [WroteErrorLog] else evs, Inl err)
      | (evs, Inr result) \<Rightarrow> (evs, Inr result))"

text \<open>The values passed to \<^verbatim>\<open>job.progress\<close>, in order.\<close>

fun progressValues :: "'m event list \<Rightarrow> nat list" where
  "progressValues [] = []"
| "progressValues (Progress n # evs) = n # progressValues evs"
| "progressValues (ev # evs) = progressValues evs"

section \<open>Server: the result route\<close>

text \<open>
  \<^verbatim>\<open>GET /jobs/:jobId/result.json\<close>, \<^verbatim>\<open>src/server.js\<close> lines 439-479. The handler looks
  at the file \<^verbatim>\<open>result.json\<close> of the job's directory and at nothing else: a missing file
  is answered by 404 \<^verbatim>\<open>RESULT_NOT_FOUND\<close>, a file that cannot be read as JSON by 500
  \<^verbatim>\<open>RESULT_FETCH_FAILED\<close>, and a readable file by its content (to which the handler
  adds the fields \<^verbatim>\<open>generatedAt\<close>, \<^verbatim>\<open>jobId\<close> and \<^verbatim>\<open>serverVersion\<close>, left out here).
\<close>

datatype 'a fileState = Missing | Unreadable | Content 'a

datatype 'm response =
    Ok200 "'m resultJson"
  | NotFound404 string
  | Error500 string

text \<open>The states of a job as the queue library reports them (\<^verbatim>\<open>job.getState()\<close>).\<close>

datatype jobState = Waiting | Active | Completed | Failed | Delayed | Paused

text \<open>What an outside reader can see of one job: its queue state and its result file.\<close>

record 'm jobView =
  jobState :: jobState
  resultFile :: "'m resultJson fileState"

definition getResult :: "'m jobView \<Rightarrow> 'm response" where
  "getResult v =
     (case resultFile v of
        Missing \<Rightarrow> NotFound404 ''RESULT_NOT_FOUND''
      | Unreadable \<Rightarrow> Error500 ''RESULT_FETCH_FAILED''
      | Content result \<Rightarrow> Ok200 result)"

text \<open>The result file after a list of events, starting from a given file.\<close>

fun fileAfter :: "'m resultJson fileState \<Rightarrow> 'm event list \<Rightarrow> 'm resultJson fileState" where
  "fileAfter f [] = f"
| "fileAfter f (WroteResult r # evs) = fileAfter (Content r) evs"
| "fileAfter f (ev # evs) = fileAfter f evs"

text \<open>
  Modelled from the spec: the queue library (Bull) is not part of the sources. By section
  4.1 of the specification \<^verbatim>\<open>lease\<close> moves a job to active before the processor runs
  and \<^verbatim>\<open>ack\<close> moves it from active to completed after the processor has returned. So
  while the processor of a freshly submitted job is running and has produced the events
  \<open>evs\<close>, a reader sees the job active.
\<close>

definition viewDuring :: "'m event list \<Rightarrow> 'm jobView" where
  "viewDuring evs = \<lparr>jobState = Active, resultFile = fileAfter Missing evs\<rparr>"

section \<open>Start-up of the worker and of the server\<close>

text \<open>
  The pause state of the queue in Redis: the keys \<^verbatim>\<open>bull:parse_jobs:paused\<close> and
  \<^verbatim>\<open>bull:parse_jobs:meta-paused\<close>. The queue is paused when either key exists.
\<close>

record queueControl =
  pausedKey :: bool
  metaPausedKey :: bool

definition isPaused :: "queueControl \<Rightarrow> bool" where
  "isPaused q = (pausedKey q \<or> metaPausedKey q)"

text \<open>
  Modelled from the spec: \<^verbatim>\<open>parseQueue.resume()\<close> and \<^verbatim>\<open>parseQueue.pause()\<close> belong to
  the queue library (Bull), which is not part of the sources. By section 4.1 of the
  specification they toggle the queue control, and \<^verbatim>\<open>resume()\<close> also clears any
  persisted pause flag.
\<close>

definition resume :: "queueControl \<Rightarrow> queueControl" where
  "resume q = \<lparr>pausedKey = False, metaPausedKey = False\<rparr>"

definition pause :: "queueControl \<Rightarrow> queueControl" where
  "pause q = \<lparr>pausedKey = True, metaPausedKey = True\<rparr>"

text \<open>
  The outcomes of the Redis calls of a start-up: whether \<^verbatim>\<open>redis.ping\<close>,
  \<^verbatim>\<open>parseQueue.resume\<close>, the two \<^verbatim>\<open>parseQueue.clean\<close> calls, the two \<^verbatim>\<open>redis.del\<close>
  calls and the job listings return.
\<close>

record startEnv =
  pingOk :: bool
  resumeOk :: bool
  cleanOk :: bool
  delPausedOk :: bool
  delMetaPausedOk :: bool
  getJobsOk :: bool

text \<open>
  \<^verbatim>\<open>initializeQueue\<close> of \<^verbatim>\<open>src/worker.js\<close>, lines 71-113: the queue control after the
  call, and \<^verbatim>\<open>true\<close> or the exception thrown.
\<close>

definition worker_initializeQueue :: "startEnv \<Rightarrow> queueControl \<Rightarrow> queueControl \<times> (error + bool)" where
  "worker_initializeQueue e q =
     (if \<not> pingOk e then (q, Inl (Error ''redis.ping failed''))
      else if \<not> resumeOk e then (q, Inl (Error ''resume failed''))
      else (let q1 = resume q
            in if \<not> cleanOk e then (q1, Inl (Error ''clean failed''))
               else if \<not> getJobsOk e then (q1, Inl (Error ''getJobs failed''))
               else (q1, Inr True)))"

text \<open>
  \<^verbatim>\<open>initializeQueue\<close> of \<^verbatim>\<open>src/server.js\<close>, lines 90-113: after \<^verbatim>\<open>resume\<close> it deletes
  the two keys itself.
\<close>

definition server_initializeQueue :: "startEnv \<Rightarrow> queueControl \<Rightarrow> queueControl \<times> (error + unit)" where
  "server_initializeQueue e q =
     (if \<not> resumeOk e then (q, Inl (Error ''resume failed''))
      else (let q1 = resume q
            in if \<not> delPausedOk e then (q1, Inl (Error ''del failed''))
               else (let q2 = q1\<lparr>pausedKey := False\<rparr>
                     in if \<not> delMetaPausedOk e then (q2, Inl (Error ''del failed''))
                        else (let q3 = q2\<lparr>metaPausedKey := False\<rparr>
                              in if \<not> getJobsOk e then (q3, Inl (Error ''getJobs failed''))
                                 else (q3, Inr ())))))"

text \<open>
  A process after its start-up code: \<^verbatim>\<open>startWorker\<close> (\<^verbatim>\<open>src/worker.js\<close>, lines
  501-532) ends the process with \<^verbatim>\<open>process.exit(1)\<close> when \<^verbatim>\<open>initializeQueue\<close> throws;
  in \<^verbatim>\<open>src/server.js\<close> the call is a top-level \<^verbatim>\<open>await\<close> (line 88), so an exception
  ends the loading of the module before \<^verbatim>\<open>app.listen\<close> is reached.
\<close>

datatype process = Running | Exited nat

definition startWorker :: "startEnv \<Rightarrow> queueControl \<Rightarrow> queueControl \<times> process" where
  "startWorker e q =
     (case worker_initializeQueue e q of
        (q', Inl err) \<Rightarrow> (q', Exited 1)
      | (q', Inr ok) \<Rightarrow> (q', Running))"

definition startServer :: "startEnv \<Rightarrow> queueControl \<Rightarrow> queueControl \<times> process" where
  "startServer e q =
     (case server_initializeQueue e q of
        (q', Inl err) \<Rightarrow> (q', Exited 1)
      | (q', Inr ok) \<Rightarrow> (q', Running))"

section \<open>Example inputs\<close>

text \<open>
  Concrete inputs on which the definitions are evaluated below. The job directory is
  \<^verbatim>\<open>/opt/parser/uploads/job-1\<close>, the uploaded file is \<^verbatim>\<open>gold-foil-card.pdf\<close>, and the
  parser has the default options.
\<close>

definition exampleFile :: string where
  "exampleFile = ''/opt/parser/uploads/job-1/gold-foil-card.pdf''"

definition exampleAssets :: string where
  "exampleAssets = ''/opt/parser/uploads/job-1/assets''"

definition defaultParser :: parser where
  "defaultParser = newParser \<lparr>opt_dpi = None, opt_enableOCG = None\<rparr>"

text \<open>
  A document without optional-content properties, on a machine where every render and
  every write succeeds. No layer is declared and nothing is read from a mask.
\<close>

definition noLayersEnv :: env where
  "noLayersEnv =
     \<lparr>ocPropsRef = Inr False,
      stringsGrep = (\<lambda>f. Inr []),
      regexCapture = (\<lambda>k line. None),
      advancedExecOk = (\<lambda>path. True),
      advancedSize = (\<lambda>path. Some 2048),
      fullPageExecOk = (\<lambda>path. True),
      fullPageExists = (\<lambda>path. True),
      readFile = (\<lambda>path. Inl (Error ''ENOENT'')),
      pngRead = (\<lambda>buffer. Inl (Error ''Invalid file signature'')),
      sharpCreateOk = (\<lambda>path. True)\<rparr>"

text \<open>
  The outcomes for a document that declares the layer \<^verbatim>\<open>Gold Foil\<close>: the search for
  layer names prints the line \<^verbatim>\<open>OCG (Gold Foil)\<close>, on which the second pattern captures
  the name; the primary render succeeds and the mask read back is the given image. The
  lookup of the optional-content properties is taken to have found them.
\<close>

definition oneLayerEnv :: "png \<Rightarrow> env" where
  "oneLayerEnv img =
     noLayersEnv
       \<lparr>ocPropsRef := Inr True,
        stringsGrep := (\<lambda>f. Inr ''OCG (Gold Foil)''),
        regexCapture := (\<lambda>k line. if k = 1 \<and> line = ''OCG (Gold Foil)''
                                    then Some ''Gold Foil'' else None),
        readFile := (\<lambda>path. Inr []),
        pngRead := (\<lambda>buffer. Inr img)\<rparr>"

text \<open>
  The catalog of such a document as the PDF library holds it: the entry
  \<^verbatim>\<open>/OCProperties\<close> lists one optional-content group, named \<^verbatim>\<open>Gold Foil\<close>.
\<close>

definition layeredDocument :: pdfDocument where
  "layeredDocument =
     \<lparr>catalog =
        [(''Type'', PDFName ''Catalog''), (''Pages'', PDFRef 1),
         (''OCProperties'',
            PDFDict [(''OCGs'', PDFArray [PDFRef 2]),
                     (''D'', PDFDict [(''Order'', PDFArray [PDFRef 2])])])],
      indirectObjects =
        [(1, PDFDict [(''Type'', PDFName ''Pages'')]),
         (2, PDFDict [(''Type'', PDFName ''OCG''), (''Name'', PDFName ''Gold Foil'')])]\<rparr>"

text \<open>A 2 by 2 mask that is fully transparent, and one whose last pixel is opaque.\<close>

definition transparentMask :: png where
  "transparentMask =
     \<lparr>png_width = 2, png_height = 2,
      png_data = [0, 0, 0, 0,  0, 0, 0, 0,  0, 0, 0, 0,  0, 0, 0, 0]\<rparr>"

definition dotMask :: png where
  "dotMask =
     \<lparr>png_width = 2, png_height = 2,
      png_data = [0, 0, 0, 0,  0, 0, 0, 0,  0, 0, 0, 0,  255, 255, 255, 255]\<rparr>"

text \<open>
  The layer that the fallback makes of the example file, and the layer that the declared
  name \<^verbatim>\<open>Gold Foil\<close> gives with a mask of the given bounding box.
\<close>

definition exampleFallbackLayer :: layer where
  "exampleFallbackLayer =
     \<lparr>layer_id = ''fallback_0'', layer_name = ''foil'', layer_type = ''effect'',
      layer_effectType = foil, layer_effectSubtype = ''default'', layer_side = Front,
      layer_maskFile = ''fallback_foil_0.png'',
      layer_bounds = \<lparr>box_x = 15, box_y = 35, box_width = 25, box_height = 8\<rparr>,
      layer_confidence = 0.5\<rparr>"

definition exampleMaskLayer :: "box \<Rightarrow> layer" where
  "exampleMaskLayer bounds =
     \<lparr>layer_id = ''layer_0'', layer_name = ''Gold Foil'', layer_type = ''effect'',
      layer_effectType = foil, layer_effectSubtype = ''gold'', layer_side = Front,
      layer_maskFile = ''Gold_Foil_0.png'',
      layer_bounds = bounds,
      layer_confidence = 0.95\<rparr>"

text \<open>A job attempt in which every call of the processor succeeds.\<close>

definition okJob :: "string jobEnv" where
  "okJob =
     \<lparr>fileExists = True, statOk = True, ensureDirOk = True,
      parseFile = Inr ''manifest'',
      writeResultOk = True, writeErrorLogOk = True\<rparr>"

text \<open>A queue that was paused when the process stopped, and a start-up without failures.\<close>

definition pausedQueue :: queueControl where
  "pausedQueue = \<lparr>pausedKey = True, metaPausedKey = True\<rparr>"

definition okStart :: startEnv where
  "okStart =
     \<lparr>pingOk = True, resumeOk = True, cleanOk = True,
      delPausedOk = True, delMetaPausedOk = True, getJobsOk = True\<rparr>"

section \<open>Properties of the overall confidence\<close>

lemma calculateConfidence_closed_form:
  assumes "0 \<le> layerCount" and "0 \<le> mapCount"
  shows "calculateConfidence layerCount mapCount =
           min 0.98 (0.3 + min 0.4 (of_int layerCount * 0.1) + min 0.3 (of_int mapCount * 0.05))"
proof -
  have l: "layerCount = 0" if "\<not> layerCount > 0"
    using that assms by simp
  have m: "mapCount = 0" if "\<not> mapCount > 0"
    using that assms by simp
  show ?thesis
    unfolding calculateConfidence_def Let_def
    by (cases "layerCount > 0"; cases "mapCount > 0") (simp_all add: l m)
qed

lemma calculateConfidence_mono:
  assumes "0 \<le> l" and "0 \<le> m" and "l \<le> l'" and "m \<le> m'"
  shows "calculateConfidence l m \<le> calculateConfidence l' m'"
proof -
  have l': "0 \<le> l'" and m': "0 \<le> m'"
    using assms by simp_all
  have a: "min 0.4 (real_of_int l * 0.1) \<le> min 0.4 (real_of_int l' * 0.1)"
    using assms(3) by (simp add: min_def)
  have b: "min 0.3 (real_of_int m * 0.05) \<le> min 0.3 (real_of_int m' * 0.05)"
    using assms(4) by (simp add: min_def)
  have "0.3 + min 0.4 (real_of_int l * 0.1) + min 0.3 (real_of_int m * 0.05)
        \<le> 0.3 + min 0.4 (real_of_int l' * 0.1) + min 0.3 (real_of_int m' * 0.05)"
    using a b by linarith
  then show ?thesis
    unfolding calculateConfidence_closed_form [OF assms(1,2)]
      calculateConfidence_closed_form [OF l' m']
    by (meson min.mono order_refl)
qed

text \<open>
  Claim C4. For all non-negative integers \<open>layerCount\<close> and \<open>mapCount\<close> the overall
  confidence computed by \<open>calculateConfidence\<close> equals
  \<open>min(0.98, 0.3 + min(0.4, layerCount*0.1) + min(0.3, mapCount*0.05))\<close>; it does not
  decrease when either count grows, and it never exceeds \<open>0.98\<close>.
\<close>

theorem calculateConfidence_spec:
  assumes "0 \<le> layerCount" and "0 \<le> mapCount"
  shows "calculateConfidence layerCount mapCount =
           min 0.98 (0.3 + min 0.4 (of_int layerCount * 0.1) + min 0.3 (of_int mapCount * 0.05))
         \<and> (\<forall>l'. layerCount \<le> l' \<longrightarrow>
               calculateConfidence layerCount mapCount \<le> calculateConfidence l' mapCount)
         \<and> (\<forall>m'. mapCount \<le> m' \<longrightarrow>
               calculateConfidence layerCount mapCount \<le> calculateConfidence layerCount m')
         \<and> calculateConfidence layerCount mapCount \<le> 0.98"
proof (intro conjI allI impI)
  show "calculateConfidence layerCount mapCount =
          min 0.98 (0.3 + min 0.4 (of_int layerCount * 0.1) + min 0.3 (of_int mapCount * 0.05))"
    by (rule calculateConfidence_closed_form [OF assms])
next
  fix l' assume "layerCount \<le> l'"
  then show "calculateConfidence layerCount mapCount \<le> calculateConfidence l' mapCount"
    using calculateConfidence_mono [OF assms, of l' mapCount] by simp
next
  fix m' assume "mapCount \<le> m'"
  then show "calculateConfidence layerCount mapCount \<le> calculateConfidence layerCount m'"
    using calculateConfidence_mono [OF assms, of layerCount m'] by simp
next
  show "calculateConfidence layerCount mapCount \<le> 0.98"
    unfolding calculateConfidence_def Let_def by simp
qed

theorem calculateConfidence_spec_witness:
  "(0::int) \<le> 2 \<and> (0::int) \<le> 3
   \<and> calculateConfidence 2 3 = 0.65
   \<and> calculateConfidence 2 3 \<le> calculateConfidence 7 3
   \<and> calculateConfidence 2 3 \<le> calculateConfidence 2 9
   \<and> calculateConfidence 2 3 \<le> 0.98"
proof -
  have h1: "(0::int) \<le> 2" and h2: "(0::int) \<le> 3"
    by simp_all
  from calculateConfidence_spec [OF h1 h2]
  have "calculateConfidence 2 3 = min 0.98 (0.3 + min 0.4 (of_int 2 * 0.1) + min 0.3 (of_int 3 * 0.05))"
    and "calculateConfidence 2 3 \<le> calculateConfidence 7 3"
    and "calculateConfidence 2 3 \<le> calculateConfidence 2 9"
    and "calculateConfidence 2 3 \<le> 0.98"
    by simp_all
  then show ?thesis by simp
qed

section \<open>Evaluation of the examples\<close>

lemma example_noLayers:
  "extractOCGLayers defaultParser noLayersEnv exampleFile exampleAssets =
     (ViaFallback, [exampleFallbackLayer])"
  by code_simp

lemma example_dotMask:
  "extractOCGLayers defaultParser (oneLayerEnv dotMask) exampleFile exampleAssets =
     (ViaOCG, [exampleMaskLayer \<lparr>box_x = 0.04, box_y = 0.04, box_width = 0, box_height = 0\<rparr>])"
  by code_simp

lemma example_maskEmpty: "maskEmpty transparentMask"
  by code_simp

lemma example_processJob:
  "processJob okJob =
     ([Progress 5, Progress 10, Progress 20, Progress 25,
       WroteResult \<lparr>manifest = ''manifest'', processingAttached = False\<rparr>,
       Progress 95, Progress 90, Progress 95, Progress 98,
       WroteResult \<lparr>manifest = ''manifest'', processingAttached = True\<rparr>,
       Progress 100],
      Inr ''manifest'')"
  by (simp add: processJob_def processTry_def parseWithProgressTracking_def okJob_def
      updateProgress_def progressMap_def)

section \<open>Substrings\<close>

lemma startsWith_iff: "startsWith s k \<longleftrightarrow> (\<exists>q. s = k @ q)"
  by (induction s k rule: startsWith.induct) auto

lemma strIncludes_iff: "strIncludes s k \<longleftrightarrow> (\<exists>p q. s = p @ k @ q)"
proof (induction s)
  case Nil
  then show ?case by auto
next
  case (Cons c cs)
  show ?case
  proof
    assume "strIncludes (c # cs) k"
    then consider "startsWith (c # cs) k" | "strIncludes cs k"
      by auto
    then show "\<exists>p q. c # cs = p @ k @ q"
    proof cases
      case 1
      then obtain q where "c # cs = k @ q"
        by (auto simp: startsWith_iff)
      then have "c # cs = [] @ k @ q"
        by simp
      then show ?thesis by blast
    next
      case 2
      then obtain p q where "cs = p @ k @ q"
        using Cons.IH by auto
      then have "c # cs = (c # p) @ k @ q"
        by simp
      then show ?thesis by blast
    qed
  next
    assume "\<exists>p q. c # cs = p @ k @ q"
    then obtain p q where e: "c # cs = p @ k @ q"
      by blast
    show "strIncludes (c # cs) k"
    proof (cases p)
      case Nil
      with e have "startsWith (c # cs) k"
        by (auto simp: startsWith_iff)
      then show ?thesis by simp
    next
      case tail: (Cons a p')
      with e have "cs = p' @ k @ q"
        by simp
      then have "strIncludes cs k"
        using Cons.IH by blast
      then show ?thesis by simp
    qed
  qed
qed

text \<open>
  Every file name that contains \<^verbatim>\<open>gold-foil-card.pdf\<close> contains the keyword \<^verbatim>\<open>foil\<close>,
  which is the first keyword of the first effect type. So the first entry found in such a
  name is the foil entry with subtype \<^verbatim>\<open>default\<close>, and no other entry is of type foil.
\<close>

lemma gold_foil_card_includes_foil:
  assumes "strIncludes filename ''gold-foil-card.pdf''"
  shows "strIncludes filename ''foil''"
proof -
  from assms obtain p q where "filename = p @ ''gold-foil-card.pdf'' @ q"
    by (auto simp: strIncludes_iff)
  then have "filename = (p @ ''gold-'') @ ''foil'' @ (''-card.pdf'' @ q)"
    by simp
  then show ?thesis
    unfolding strIncludes_iff by blast
qed

lemma effectOfType_type: "eff \<in> set (effectOfType filename entry) \<Longrightarrow> effect_type eff = fst entry"
  by (auto simp: effectOfType_def split: option.splits)

lemma foil_keyword_first:
  assumes "strIncludes filename ''gold-foil-card.pdf''"
  shows "\<exists>rest. analyzeFilenameForEffects filename =
           \<lparr>effect_type = foil, effect_keyword = ''foil'', effect_subtype = ''default''\<rparr> # rest
         \<and> foil \<notin> effect_type ` set rest"
proof -
  have f: "strIncludes filename ''foil''"
    using assms by (rule gold_foil_card_includes_foil)
  have l: "toLowerCase ''foil'' = ''foil''"
    by code_simp
  have s: "extractSubtypeFromKeyword ''foil'' filename = ''default''"
    by (simp add: extractSubtypeFromKeyword_def subtypeMap_def)
  have h: "effectOfType filename (foil, [''foil'', ''gold'', ''silver'', ''metallic'', ''hot'']) =
          [\<lparr>effect_type = foil, effect_keyword = ''foil'', effect_subtype = ''default''\<rparr>]"
    using f by (simp add: effectOfType_def l s)
  let ?rest = "concat (map (effectOfType filename) (tl effectPatterns))"
  have "analyzeFilenameForEffects filename =
          \<lparr>effect_type = foil, effect_keyword = ''foil'', effect_subtype = ''default''\<rparr> # ?rest"
    using h by (simp add: analyzeFilenameForEffects_def effectPatterns_def)
  moreover have "foil \<notin> effect_type ` set ?rest"
    by (auto simp: effectPatterns_def dest!: effectOfType_type)
  ultimately show ?thesis by blast
qed

section \<open>The scan of a mask without content\<close>

text \<open>
  The shifted index is a multiple of four, also after the 32-bit wrap-around, so every
  byte that the loop reads is an alpha byte of the buffer.
\<close>

lemma uint_shift2_dvd: "4 dvd uint (push_bit 2 (w :: 32 word))"
proof -
  have "uint (push_bit 2 w) = uint (w * 4)"
    by (simp add: push_bit_eq_mult)
  also have "\<dots> = (uint w * 4) mod 2 ^ 32"
    by (simp add: uint_word_ariths)
  finally have e: "uint (push_bit 2 w) = (uint w * 4) mod 2 ^ 32" .
  have "(4::int) dvd (uint w * 4) mod 2 ^ 32"
    by (rule dvd_mod) simp_all
  then show ?thesis by (simp only: e)
qed

lemma sint_shift2_dvd: "4 dvd sint (push_bit 2 (w :: 32 word))"
proof -
  let ?v = "push_bit 2 w"
  have "uint ?v = sint ?v mod 2 ^ 32"
    using uint_sint [of ?v] by (simp add: take_bit_eq_mod)
  with uint_shift2_dvd [of w] have "(4::int) dvd sint ?v mod 2 ^ 32"
    by simp
  moreover have "(4::int) dvd 2 ^ 32"
    by simp
  ultimately show ?thesis
    by (rule dvd_mod_imp_dvd)
qed

lemma pixelIndex_alpha:
  assumes "0 \<le> pixelIndex p x y + 3"
  shows "nat (pixelIndex p x y + 3) mod 4 = 3"
proof -
  from sint_shift2_dvd obtain k where k: "pixelIndex p x y = 4 * k"
    unfolding pixelIndex_def by (auto simp: dvd_def)
  with assms have "0 \<le> k"
    by simp
  then obtain n where n: "k = int n"
    using nonneg_int_cases by blast
  have "nat (pixelIndex p x y + 3) = 4 * n + 3"
    by (simp add: k n nat_add_distrib nat_mult_distrib)
  then show ?thesis by simp
qed

lemma maskEmpty_not_significant:
  assumes "maskEmpty p"
  shows "\<not> significant p x y"
proof (cases "alphaAt p x y")
  case None
  then show ?thesis by (simp add: significant_def)
next
  case (Some alpha)
  let ?i = "pixelIndex p x y + 3"
  from Some have r: "0 \<le> ?i" "?i < int (length (png_data p))" "alpha = png_data p ! nat ?i"
    by (auto simp: alphaAt_def Let_def split: if_splits)
  have "nat ?i < length (png_data p)"
    using r by simp
  moreover have "nat ?i mod 4 = 3"
    using r(1) by (rule pixelIndex_alpha)
  ultimately have "unat (png_data p ! nat ?i) \<le> 50"
    using assms by (simp add: maskEmpty_def)
  then show ?thesis
    using Some r(3) by (simp add: significant_def)
qed

lemma scanPixel_skip: "\<not> significant p x y \<Longrightarrow> scanPixel p y x st = st"
  by (simp add: scanPixel_def)

lemma scanRow_maskEmpty:
  assumes "maskEmpty p"
  shows "scanRow p y st = st"
proof -
  have "fold (scanPixel p y) xs st = st" for xs
    by (induction xs) (simp_all add: scanPixel_skip maskEmpty_not_significant [OF assms])
  then show ?thesis by (simp add: scanRow_def)
qed

lemma scanMask_maskEmpty:
  assumes "maskEmpty p"
  shows "\<not> hasContent (scanMask p)"
proof -
  have "fold (scanRow p) ys st = st" for ys st
    by (induction ys) (simp_all add: scanRow_maskEmpty [OF assms])
  then show ?thesis by (simp add: scanMask_def)
qed

lemma extractBoundsTry_maskEmpty:
  assumes "readFile e maskPath = Inr pngBuffer"
    and "pngRead e pngBuffer = Inr p"
    and "maskEmpty p"
  shows "extractBoundsTry this e maskPath = Inr zeroBox"
  using assms scanMask_maskEmpty [OF assms(3)] by (simp add: extractBoundsTry_def Let_def)

lemma extractBoundsFromMask_returns:
  "\<exists>bounds. extractBoundsFromMask this e maskPath = Inr bounds"
  by (simp add: extractBoundsFromMask_def split: sum.split)

section \<open>Confidence of the layers\<close>

lemma fallbackLayer_confidence:
  "l \<in> set (fallbackLayer e assetsDir ie) \<Longrightarrow> layer_confidence l = 0.5"
  by (auto simp: fallbackLayer_def split: option.splits)

lemma fallbackLayerExtraction_confidence:
  "l \<in> set (fallbackLayerExtraction e filePath assetsDir) \<Longrightarrow> layer_confidence l = 0.5"
  by (auto simp: fallbackLayerExtraction_def Let_def dest: fallbackLayer_confidence)

lemma renderLayerMask_confidence:
  "renderLayerMask e layerName i assetsDir = Some mr \<Longrightarrow>
     mr_confidence mr = 0.95 \<or> mr_confidence mr = 0.7"
  by (auto simp: renderLayerMask_def Let_def split: if_splits)

lemma processLayerName_confidence:
  assumes "l \<in> set (processLayerName this e assetsDir il)"
  shows "layer_confidence l = 0.95 \<or> layer_confidence l = 0.7"
proof (cases "detectEffectLayer (snd il)")
  case None
  with assms show ?thesis by (simp add: processLayerName_def Let_def)
next
  case info: (Some effectInfo)
  show ?thesis
  proof (cases "renderLayerMask e (snd il) (fst il) assetsDir")
    case None
    with assms info show ?thesis by (simp add: processLayerName_def Let_def)
  next
    case (Some mr)
    from renderLayerMask_confidence [OF Some]
    have c: "mr_confidence mr = 0.95 \<or> mr_confidence mr = 0.7" .
    then have "mr_confidence mr \<noteq> 0"
      by auto
    with assms info Some have "layer_confidence l = mr_confidence mr"
      by (auto simp: processLayerName_def Let_def split: sum.splits)
    with c show ?thesis by simp
  qed
qed

lemma processLayerNames_confidence:
  "l \<in> set (processLayerNames this e assetsDir layerNames) \<Longrightarrow>
     layer_confidence l = 0.95 \<or> layer_confidence l = 0.7"
  by (auto simp: processLayerNames_def dest: processLayerName_confidence)

lemma extractOCGLayers_cases:
  "extractOCGLayers this e filePath assetsDir =
     (if enableOCG this \<and> ocPropsRef e = Inr True
      then (ViaOCG, processLayerNames this e assetsDir (extractLayerNames e filePath))
      else (ViaFallback, fallbackLayerExtraction e filePath assetsDir))"
  by (auto simp: extractOCGLayers_def split: sum.splits)

section \<open>Claims about the analyzer\<close>

text \<open>
  Claim C5. Every layer produced by the fallback (file-name) classification has a
  confidence strictly lower than every layer backed by a rendered mask, whether the mask
  came from the primary render or from the full-page substitute: whenever one call of
  \<open>extractOCGLayers\<close> went through the fallback and another through the declared
  names, each layer of the first has a smaller confidence than each layer of the second.
\<close>

theorem fallback_confidence_lower:
  assumes "extractOCGLayers this e filePath assetsDir = (ViaFallback, fallbackLayers)"
    and "extractOCGLayers this' e' filePath' assetsDir' = (ViaOCG, maskLayers)"
    and "lf \<in> set fallbackLayers"
    and "lm \<in> set maskLayers"
  shows "layer_confidence lf < layer_confidence lm"
proof -
  from assms(1,3) have "lf \<in> set (fallbackLayerExtraction e filePath assetsDir)"
    by (auto simp: extractOCGLayers_cases split: if_splits)
  then have f: "layer_confidence lf = 0.5"
    by (rule fallbackLayerExtraction_confidence)
  from assms(2,4)
  have "lm \<in> set (processLayerNames this' e' assetsDir' (extractLayerNames e' filePath'))"
    by (auto simp: extractOCGLayers_cases split: if_splits)
  then have "layer_confidence lm = 0.95 \<or> layer_confidence lm = 0.7"
    by (rule processLayerNames_confidence)
  with f show ?thesis by auto
qed

theorem fallback_confidence_lower_witness:
  "extractOCGLayers defaultParser noLayersEnv exampleFile exampleAssets =
     (ViaFallback, [exampleFallbackLayer])
   \<and> extractOCGLayers defaultParser (oneLayerEnv dotMask) exampleFile exampleAssets =
     (ViaOCG, [exampleMaskLayer \<lparr>box_x = 0.04, box_y = 0.04, box_width = 0, box_height = 0\<rparr>])
   \<and> layer_confidence exampleFallbackLayer
       < layer_confidence
           (exampleMaskLayer \<lparr>box_x = 0.04, box_y = 0.04, box_width = 0, box_height = 0\<rparr>)"
proof -
  have "layer_confidence exampleFallbackLayer
          < layer_confidence
              (exampleMaskLayer \<lparr>box_x = 0.04, box_y = 0.04, box_width = 0, box_height = 0\<rparr>)"
    by (rule fallback_confidence_lower [OF example_noLayers example_dotMask]) simp_all
  with example_noLayers example_dotMask show ?thesis
    by simp
qed

text \<open>
  On a document loaded by the PDF library the lookup finds nothing, whatever the catalog
  holds: the key it is given is the dictionary made by \<^verbatim>\<open>obj\<close>. So the guard sends
  every document to the fallback.
\<close>

lemma lookupOCProperties_undefined: "lookupOCProperties doc = None"
  by (simp add: lookupOCProperties_def dictLookup_def dictGet_def contextLookup_def)

lemma fallbackLayer_ocPropsRef:
  "fallbackLayer (e\<lparr>ocPropsRef := v\<rparr>) assetsDir = fallbackLayer e assetsDir"
  by (rule ext) (simp add: fallbackLayer_def generateFallbackMask_def)

lemma fallbackLayerExtraction_ocPropsRef:
  "fallbackLayerExtraction (e\<lparr>ocPropsRef := v\<rparr>) filePath assetsDir =
     fallbackLayerExtraction e filePath assetsDir"
  by (simp add: fallbackLayerExtraction_def fallbackLayer_ocPropsRef)

lemma extractOCGLayersOf_fallback:
  "extractOCGLayersOf pdfDoc this e filePath assetsDir =
     (ViaFallback, fallbackLayerExtraction e filePath assetsDir)"
  by (simp add: extractOCGLayersOf_def extractOCGLayers_def lookupOCProperties_undefined
      fallbackLayerExtraction_ocPropsRef)

text \<open>
  Claim C6 asks that the fallback classification is used exactly when layer enumeration
  found nothing, and that otherwise the declared names are classified one by one and the
  fallback is not used. The code misses the second half: for a document whose catalog has
  the entry \<^verbatim>\<open>/OCProperties\<close>, with the OCG mode enabled and the effect layer
  \<^verbatim>\<open>Gold Foil\<close> found by the enumeration, the lookup of the guard still returns
  \<^verbatim>\<open>undefined\<close>, the fallback runs, and the result is the layer guessed from the file
  name instead of the declared one.
\<close>

theorem declared_layer_takes_fallback:
  "dictGet (catalog layeredDocument) (JsPdf (PDFName ''OCProperties'')) \<noteq> None
   \<and> enableOCG defaultParser
   \<and> extractLayerNames (oneLayerEnv dotMask) exampleFile = [''Gold Foil'']
   \<and> detectEffectLayer ''Gold Foil'' =
       Some \<lparr>info_type = foil, info_subtype = ''gold'', info_side = Front\<rparr>
   \<and> lookupOCProperties layeredDocument = None
   \<and> extractOCGLayersOf layeredDocument defaultParser (oneLayerEnv dotMask)
         exampleFile exampleAssets =
       (ViaFallback, [exampleFallbackLayer])"
  by code_simp

text \<open>
  Claim C7 asks that for the file name \<^verbatim>\<open>gold-foil-card.pdf\<close> and a file without declared
  layers the fallback yields exactly one entry, of effect type foil and subtype gold, with
  confidence 0.5 and the nominal bounding box. The code yields exactly one entry of type
  foil with confidence 0.5 and the box \<open>(15, 35, 25, 8)\<close>, but its subtype is
  \<^verbatim>\<open>default\<close>: the keyword \<^verbatim>\<open>foil\<close> precedes \<^verbatim>\<open>gold\<close> in the keyword list and wins, and
  the subtype table has no entry for \<^verbatim>\<open>foil\<close>.
\<close>

theorem gold_foil_card_fallback:
  "extractOCGLayers defaultParser noLayersEnv ''/opt/parser/uploads/job-1/gold-foil-card.pdf''
       ''/opt/parser/uploads/job-1/assets'' =
     (ViaFallback,
      [\<lparr>layer_id = ''fallback_0'', layer_name = ''foil'', layer_type = ''effect'',
        layer_effectType = foil, layer_effectSubtype = ''default'', layer_side = Front,
        layer_maskFile = ''fallback_foil_0.png'',
        layer_bounds = \<lparr>box_x = 15, box_y = 35, box_width = 25, box_height = 8\<rparr>,
        layer_confidence = 0.5\<rparr>])
   \<and> detectEffectLayer ''gold-foil-card.pdf'' =
       Some \<lparr>info_type = foil, info_subtype = ''gold'', info_side = Front\<rparr>"
  by code_simp

theorem gold_foil_card_fallback_witness:
  "ocPropsRef noLayersEnv = Inr False
   \<and> map layer_effectType
        (snd (extractOCGLayers defaultParser noLayersEnv
                ''/opt/parser/uploads/job-1/gold-foil-card.pdf''
                ''/opt/parser/uploads/job-1/assets'')) = [foil]
   \<and> map layer_effectSubtype
        (snd (extractOCGLayers defaultParser noLayersEnv
                ''/opt/parser/uploads/job-1/gold-foil-card.pdf''
                ''/opt/parser/uploads/job-1/assets'')) = [''default'']"
  using gold_foil_card_fallback by (simp add: noLayersEnv_def)

text \<open>
  In the loop over the declared names, a classified effect layer whose rendered mask has no
  pixel with alpha above 50 is produced with the zero box as its bounds and with the
  confidence of the render method that produced the mask.
\<close>

lemma empty_mask_layer:
  assumes "detectEffectLayer layerName = Some effectInfo"
    and "renderLayerMask e layerName i assetsDir = Some mr"
    and "readFile e (mr_maskPath mr) = Inr pngBuffer"
    and "pngRead e pngBuffer = Inr p"
    and "maskEmpty p"
  shows "\<exists>l. processLayerName this e assetsDir (i, layerName) = [l]
             \<and> layer_bounds l = zeroBox
             \<and> layer_confidence l = mr_confidence mr
             \<and> (mr_confidence mr = 0.95 \<or> mr_confidence mr = 0.7)"
proof -
  have b: "extractBoundsFromMask this e (mr_maskPath mr) = Inr zeroBox"
    using extractBoundsTry_maskEmpty [OF assms(3,4,5)] by (simp add: extractBoundsFromMask_def)
  have c: "mr_confidence mr = 0.95 \<or> mr_confidence mr = 0.7"
    using assms(2) by (rule renderLayerMask_confidence)
  then have "mr_confidence mr \<noteq> 0"
    by auto
  then show ?thesis
    using assms(1,2) b c by (simp add: processLayerName_def Let_def)
qed

text \<open>
  Claim C10. \<open>extractBoundsFromMask\<close> never throws: for every mask path it returns a
  bounding box. When reading the file fails or the bytes are not decodable as a PNG it
  returns the zero box, which is also what it returns for a mask without content, so a
  failed extraction cannot be told from an empty mask.
\<close>

theorem extractBoundsFromMask_total:
  "(\<exists>bounds. extractBoundsFromMask this e maskPath = Inr bounds)
   \<and> (\<forall>err. readFile e maskPath = Inl err \<longrightarrow>
         extractBoundsFromMask this e maskPath = Inr zeroBox)
   \<and> (\<forall>pngBuffer err. readFile e maskPath = Inr pngBuffer \<and> pngRead e pngBuffer = Inl err \<longrightarrow>
         extractBoundsFromMask this e maskPath = Inr zeroBox)
   \<and> (\<forall>pngBuffer p. readFile e maskPath = Inr pngBuffer \<and> pngRead e pngBuffer = Inr p
          \<and> maskEmpty p \<longrightarrow>
         extractBoundsFromMask this e maskPath = Inr zeroBox)"
proof (intro conjI allI impI)
  show "\<exists>bounds. extractBoundsFromMask this e maskPath = Inr bounds"
    by (rule extractBoundsFromMask_returns)
next
  fix err
  assume "readFile e maskPath = Inl err"
  then show "extractBoundsFromMask this e maskPath = Inr zeroBox"
    by (simp add: extractBoundsFromMask_def extractBoundsTry_def)
next
  fix pngBuffer err
  assume "readFile e maskPath = Inr pngBuffer \<and> pngRead e pngBuffer = Inl err"
  then show "extractBoundsFromMask this e maskPath = Inr zeroBox"
    by (simp add: extractBoundsFromMask_def extractBoundsTry_def)
next
  fix pngBuffer p
  assume "readFile e maskPath = Inr pngBuffer \<and> pngRead e pngBuffer = Inr p \<and> maskEmpty p"
  then have "extractBoundsTry this e maskPath = Inr zeroBox"
    by (simp add: extractBoundsTry_maskEmpty)
  then show "extractBoundsFromMask this e maskPath = Inr zeroBox"
    by (simp add: extractBoundsFromMask_def)
qed

theorem extractBoundsFromMask_total_witness:
  "readFile noLayersEnv ''/opt/parser/uploads/job-1/assets/missing.png'' = Inl (Error ''ENOENT'')
   \<and> extractBoundsFromMask defaultParser noLayersEnv
        ''/opt/parser/uploads/job-1/assets/missing.png'' = Inr zeroBox
   \<and> readFile (oneLayerEnv transparentMask) ''/opt/parser/uploads/job-1/assets/Gold_Foil_0.png'' = Inr []
   \<and> pngRead (oneLayerEnv transparentMask) [] = Inr transparentMask
   \<and> maskEmpty transparentMask
   \<and> extractBoundsFromMask defaultParser (oneLayerEnv transparentMask)
        ''/opt/parser/uploads/job-1/assets/Gold_Foil_0.png'' = Inr zeroBox"
proof -
  let ?missing = "''/opt/parser/uploads/job-1/assets/missing.png''"
  let ?mask = "''/opt/parser/uploads/job-1/assets/Gold_Foil_0.png''"
  have a: "readFile noLayersEnv ?missing = Inl (Error ''ENOENT'')"
    by (simp add: noLayersEnv_def)
  have b: "readFile (oneLayerEnv transparentMask) ?mask = Inr []"
    by (simp add: oneLayerEnv_def noLayersEnv_def)
  have c: "pngRead (oneLayerEnv transparentMask) [] = Inr transparentMask"
    by (simp add: oneLayerEnv_def noLayersEnv_def)
  from extractBoundsFromMask_total [of defaultParser noLayersEnv ?missing] a
  have 1: "extractBoundsFromMask defaultParser noLayersEnv ?missing = Inr zeroBox"
    by blast
  from extractBoundsFromMask_total [of defaultParser "oneLayerEnv transparentMask" ?mask]
    b c example_maskEmpty
  have 2: "extractBoundsFromMask defaultParser (oneLayerEnv transparentMask) ?mask = Inr zeroBox"
    by blast
  from a b c example_maskEmpty 1 2 show ?thesis
    by simp
qed

section \<open>Claims about the worker and the server\<close>

text \<open>
  The reported progress values are sorted exactly in the attempts that end before the
  analyzer has returned a manifest.
\<close>

lemma progressValues_append:
  "progressValues (evs @ evs') = progressValues evs @ progressValues evs'"
  by (induction evs rule: progressValues.induct) simp_all

lemma processJob_progress_sorted_iff:
  "sorted (progressValues (fst (processJob e))) \<longleftrightarrow>
     \<not> (fileExists e \<and> statOk e \<and> ensureDirOk e \<and> (\<exists>result. parseFile e = Inr result))"
  by (cases "parseFile e")
     (simp_all add: processJob_def processTry_def parseWithProgressTracking_def updateProgress_def
        progressMap_def Let_def progressValues_append)

text \<open>
  Claim C1 asks that the progress values reported within one attempt never decrease. In
  an attempt in which the analyzer returns, the processor reports 95 for the stage
  \<^verbatim>\<open>finalizing\<close> from inside \<^verbatim>\<open>parseWithProgressTracking\<close> and then 90 after the call
  has returned, so the reported sequence is not sorted. The theorem evaluates the
  attempt in which every step succeeds.
\<close>

theorem progress_regresses_on_success:
  "progressValues (fst (processJob okJob)) = [5, 10, 20, 25, 95, 90, 95, 98, 100]
   \<and> \<not> sorted (progressValues (fst (processJob okJob)))"
  by (simp add: example_processJob)

text \<open>
  A start-up that returns has called \<^verbatim>\<open>resume\<close>; the deletions of the server change
  nothing after it.
\<close>

lemma worker_initializeQueue_ok:
  "worker_initializeQueue e q = (q', Inr ok) \<Longrightarrow> q' = resume q"
  by (auto simp: worker_initializeQueue_def Let_def split: if_splits)

lemma server_initializeQueue_ok:
  "server_initializeQueue e q = (q', Inr ok) \<Longrightarrow> q' = resume q"
  by (auto simp: server_initializeQueue_def Let_def resume_def split: if_splits)

text \<open>
  Claim C2. After every start of the worker or of the server that gets as far as running,
  the queue is not paused, whatever the pause keys were before: both start-up paths
  resume the queue first, and a start-up that fails ends the process.
\<close>

theorem startup_not_paused:
  "(snd (startWorker e q) = Running \<longrightarrow> \<not> isPaused (fst (startWorker e q)))
   \<and> (snd (startServer e q) = Running \<longrightarrow> \<not> isPaused (fst (startServer e q)))"
proof (intro conjI impI)
  assume "snd (startWorker e q) = Running"
  then obtain q' ok where "worker_initializeQueue e q = (q', Inr ok)"
    and "fst (startWorker e q) = q'"
    by (cases "worker_initializeQueue e q") (auto simp: startWorker_def split: sum.splits)
  then show "\<not> isPaused (fst (startWorker e q))"
    using worker_initializeQueue_ok by (fastforce simp: isPaused_def resume_def)
next
  assume "snd (startServer e q) = Running"
  then obtain q' ok where "server_initializeQueue e q = (q', Inr ok)"
    and "fst (startServer e q) = q'"
    by (cases "server_initializeQueue e q") (auto simp: startServer_def split: sum.splits)
  then show "\<not> isPaused (fst (startServer e q))"
    using server_initializeQueue_ok by (fastforce simp: isPaused_def resume_def)
qed

theorem startup_not_paused_witness:
  "isPaused pausedQueue
   \<and> snd (startWorker okStart pausedQueue) = Running
   \<and> \<not> isPaused (fst (startWorker okStart pausedQueue))
   \<and> snd (startServer okStart pausedQueue) = Running
   \<and> \<not> isPaused (fst (startServer okStart pausedQueue))"
proof -
  have p: "isPaused pausedQueue"
    by (simp add: isPaused_def pausedQueue_def)
  have w: "snd (startWorker okStart pausedQueue) = Running"
    by (simp add: startWorker_def worker_initializeQueue_def okStart_def)
  have s: "snd (startServer okStart pausedQueue) = Running"
    by (simp add: startServer_def server_initializeQueue_def okStart_def)
  from startup_not_paused [of okStart pausedQueue] w s
  have "\<not> isPaused (fst (startWorker okStart pausedQueue))"
    and "\<not> isPaused (fst (startServer okStart pausedQueue))"
    by simp_all
  with p w s show ?thesis
    by simp
qed

text \<open>
  Claim C8, as stated: a result request for a job that is not completed returns no
  manifest and fails with the not-found error. This fails while a job is being
  processed: the analyzer writes \<^verbatim>\<open>result.json\<close> before it returns, so after the
  first five events of a successful attempt the job is still active and the route
  already answers with the manifest.
\<close>

theorem result_while_active_counterexample:
  "take 5 (fst (processJob okJob)) =
     [Progress 5, Progress 10, Progress 20, Progress 25,
      WroteResult \<lparr>manifest = ''manifest'', processingAttached = False\<rparr>]
   \<and> jobState (viewDuring (take 5 (fst (processJob okJob)))) = Active
   \<and> getResult (viewDuring (take 5 (fst (processJob okJob)))) =
       Ok200 \<lparr>manifest = ''manifest'', processingAttached = False\<rparr>"
  by (simp add: example_processJob viewDuring_def getResult_def)

text \<open>
  Claim C8, amended. The result route answers by the file \<^verbatim>\<open>result.json\<close> of the job's
  directory alone, whatever the state of the job: it fails with the not-found error
  exactly when the file is missing, and it returns the manifest exactly when the file
  holds one.
\<close>

theorem getResult_by_file:
  "(getResult v = NotFound404 ''RESULT_NOT_FOUND'' \<longleftrightarrow> resultFile v = Missing)
   \<and> ((\<exists>r. getResult v = Ok200 r) \<longleftrightarrow> (\<exists>r. resultFile v = Content r))
   \<and> getResult (v\<lparr>jobState := s\<rparr>) = getResult v"
  by (cases "resultFile v") (simp_all add: getResult_def)

theorem getResult_by_file_witness:
  "getResult \<lparr>jobState = Completed, resultFile = (Missing :: string resultJson fileState)\<rparr> =
       NotFound404 ''RESULT_NOT_FOUND''
   \<and> getResult \<lparr>jobState = Failed,
        resultFile = Content \<lparr>manifest = ''manifest'', processingAttached = False\<rparr>\<rparr> =
       Ok200 \<lparr>manifest = ''manifest'', processingAttached = False\<rparr>"
proof -
  let ?r = "\<lparr>manifest = ''manifest'', processingAttached = False\<rparr>"
  from getResult_by_file [of "\<lparr>jobState = Completed, resultFile = (Missing :: string resultJson fileState)\<rparr>"]
  have 1: "getResult \<lparr>jobState = Completed, resultFile = (Missing :: string resultJson fileState)\<rparr> =
             NotFound404 ''RESULT_NOT_FOUND''"
    by simp
  from getResult_by_file [of "\<lparr>jobState = Failed, resultFile = Content ?r\<rparr>"]
  obtain r where "getResult \<lparr>jobState = Failed, resultFile = Content ?r\<rparr> = Ok200 r"
    by auto
  then have 2: "getResult \<lparr>jobState = Failed, resultFile = Content ?r\<rparr> = Ok200 ?r"
    by (simp add: getResult_def)
  from 1 2 show ?thesis
    by simp
qed

end
